theory Spec2Isabelle
  imports Main "HOL-Library.Sublist"
begin

section \<open>Python values\<close>

text \<open>
  The task tracker of \<^verbatim>\<open>src/agent/agency.py\<close> is reached through tool calls whose
  arguments are decoded JSON: the code never converts them, it only tests them
  (\<^verbatim>\<open>not x\<close>, \<^verbatim>\<open>x is None\<close>, \<^verbatim>\<open>isinstance(x, list)\<close>, \<^verbatim>\<open>task.id == x\<close>) and stores
  them in the fields of a task. The fields of a task therefore hold Python values, whatever
  the annotations of the dataclass say. \<open>PInt\<close> stands for a JSON number.
\<close>

datatype pyval =
    PNone
  | PBool bool
  | PInt int
  | PStr string
  | PList "pyval list"
  | PDict "(string \<times> pyval) list"

text \<open>Python's truth test, as \<^verbatim>\<open>not x\<close>, \<^verbatim>\<open>x or y\<close> and \<^verbatim>\<open>if x\<close> apply it.\<close>

fun truthy :: "pyval \<Rightarrow> bool" where
  "truthy PNone = False"
| "truthy (PBool b) = b"
| "truthy (PInt i) = (i \<noteq> 0)"
| "truthy (PStr s) = (s \<noteq> [])"
| "truthy (PList xs) = (xs \<noteq> [])"
| "truthy (PDict kvs) = (kvs \<noteq> [])"

text \<open>\<^verbatim>\<open>x or y\<close>: \<open>x\<close> itself when it is true, \<open>y\<close> otherwise.\<close>

definition py_or :: "pyval \<Rightarrow> pyval \<Rightarrow> pyval" where
  "py_or x y = (if truthy x then x else y)"

text \<open>\<^verbatim>\<open>isinstance(x, list)\<close>.\<close>

fun is_list :: "pyval \<Rightarrow> bool" where
  "is_list (PList xs) = True"
| "is_list v = False"

text \<open>
  An f-string, before it is rendered: its literal text and the values it interpolates.
  How \<^verbatim>\<open>str()\<close> renders an interpolated value is Python's business; the pieces keep
  everything the code decides.
\<close>

datatype piece = Lit string | Val pyval

type_synonym fstring = "piece list"

text \<open>\<^verbatim>\<open>str(n)\<close> of a natural number: its decimal digits, most significant first.\<close>

definition digit_char :: "nat \<Rightarrow> char" where
  "digit_char d = char_of (48 + d)"

fun str_nat :: "nat \<Rightarrow> string" where
  "str_nat n = (if n < 10 then [digit_char n] else str_nat (n div 10) @ [digit_char (n mod 10)])"

declare str_nat.simps [simp del]

text \<open>Reading a decimal numeral back; used to show that \<open>str_nat\<close> is injective.\<close>

definition digit_val :: "char \<Rightarrow> nat" where
  "digit_val c = of_char c - 48"

definition nat_of_str :: "string \<Rightarrow> nat" where
  "nat_of_str s = foldl (\<lambda>a c. 10 * a + digit_val c) 0 s"

section \<open>The task tracker: \<^verbatim>\<open>src/agent/agency.py\<close>\<close>

text \<open>The dataclass \<^verbatim>\<open>Task\<close>. The fields \<^verbatim>\<open>id\<close> and \<^verbatim>\<open>notes\<close> are \<open>id_field\<close> and \<open>notes_field\<close> here.\<close>

record task =
  id_field :: string
  description :: pyval
  requirements :: pyval
  completed :: pyval
  notes_field :: pyval

text \<open>
  An event of the bus: its topic and its payload. The payload of every event the tracker
  publishes is a task; the model keeps the task as the subscribers see it when the event
  is delivered.
\<close>

type_synonym event = "string \<times> task"

text \<open>A line printed by \<^verbatim>\<open>console.print(text, style=...)\<close>: the text and the style.\<close>

type_synonym console_line = "fstring \<times> string"

text \<open>
  The result of a call: the value it returns, or the exception that leaves it, with its
  message. The exceptions the tracker can meet are those of \<^verbatim>\<open>console.print\<close>.
\<close>

datatype 'a outcome = Returned 'a | Raised string

text \<open>
  The class \<^verbatim>\<open>Agency\<close>, with the two collaborators its methods write to. \<open>pubsub\<close>
  is the bus, as the list of the events published on it so far. The module's
  \<^verbatim>\<open>console\<close> is a \<^verbatim>\<open>Console\<close> of the \<^verbatim>\<open>rich\<close> library: \<open>console_out\<close> is the
  list of the lines it has printed so far, and \<open>console_rejects\<close> is what the library
  answers to a text, \<open>None\<close> when it prints it and \<open>Some msg\<close> when it raises
  an exception with the message \<open>msg\<close> instead (the library reads square brackets in the
  text as markup, also those of an interpolated value, and refuses a closing tag that
  closes nothing with a \<^verbatim>\<open>MarkupError\<close>). The library is not part of the sources: its answer is a parameter, which no
  operation changes. The field \<^verbatim>\<open>llm\<close> is set by the constructor and read by no method
  of the class.
\<close>

record agency =
  pubsub :: "event list"
  tasks :: "task list"
  silence_actions :: bool
  console_out :: "console_line list"
  console_rejects :: "fstring \<Rightarrow> string option"

text \<open>\<^verbatim>\<open>Agency.__init__\<close>, with a bus and a console on which nothing has happened yet.\<close>

definition init_agency :: "bool \<Rightarrow> (fstring \<Rightarrow> string option) \<Rightarrow> agency" where
  "init_agency silent rejects =
     \<lparr>pubsub = [], tasks = [], silence_actions = silent, console_out = [],
      console_rejects = rejects\<rparr>"

text \<open>
  Modelled from the spec: \<^verbatim>\<open>PubSub.publish\<close> of \<^verbatim>\<open>utils/pubsub.py\<close>, which is not among
  the sources. The spec's bus delivers the event to the handlers of the topic, a fault of
  a handler "does not propagate to the publisher", and a topic without subscribers is a
  no-op: \<open>publish\<close> records the event and never raises.
\<close>

definition publish :: "string \<Rightarrow> task \<Rightarrow> agency \<Rightarrow> agency" where
  "publish topic payload s = s\<lparr>pubsub := pubsub s @ [(topic, payload)]\<rparr>"

text \<open>
  \<^verbatim>\<open>console.print(text, style=...)\<close>: the line is printed, or the call raises and prints
  nothing (\<open>Inl\<close> with the message of the exception).
\<close>

definition console_print :: "fstring \<Rightarrow> string \<Rightarrow> agency \<Rightarrow> string + agency" where
  "console_print text_out style s =
     (case console_rejects s text_out of
        Some msg \<Rightarrow> Inl msg
      | None \<Rightarrow> Inr (s\<lparr>console_out := console_out s @ [(text_out, style)]\<rparr>))"

text \<open>
  The handler the four operations share but for its text,
  \<^verbatim>\<open>except Exception as e: console.print(f"Error ...: {e}", style="bold red"); return False\<close>.
  It runs on the tracker as the \<^verbatim>\<open>try\<close> block left it. Its own print is not
  guarded: when that raises, the exception leaves the operation.
\<close>

definition except_handler :: "string \<Rightarrow> string \<Rightarrow> agency \<Rightarrow> bool outcome \<times> agency" where
  "except_handler label e s =
     (case console_print [Lit label, Val (PStr e)] ''bold red'' s of
        Inr s' \<Rightarrow> (Returned False, s')
      | Inl e' \<Rightarrow> (Raised e', s))"

definition get_new_task_id :: "agency \<Rightarrow> string" where
  "get_new_task_id s = ''task_'' @ str_nat (length (tasks s) + 1)"

definition get_incomplete_tasks :: "agency \<Rightarrow> task list" where
  "get_incomplete_tasks s = [t \<leftarrow> tasks s. \<not> truthy (completed t)]"

definition get_completed_tasks :: "agency \<Rightarrow> task list" where
  "get_completed_tasks s = [t \<leftarrow> tasks s. truthy (completed t)]"

definition has_incomplete_tasks :: "agency \<Rightarrow> bool" where
  "has_incomplete_tasks s = list_ex (\<lambda>t. \<not> truthy (completed t)) (tasks s)"

text \<open>
  \<^verbatim>\<open>create_task(description, requirements, completed=False)\<close>: the task is appended, the
  notice is printed unless actions are silenced, the event is published, the result is
  \<^verbatim>\<open>True\<close>. When the notice raises, the task stays appended, nothing is published and
  the handler runs. The method tests none of its arguments.
\<close>

definition create_task :: "agency \<Rightarrow> pyval \<Rightarrow> pyval \<Rightarrow> pyval \<Rightarrow> bool outcome \<times> agency" where
  "create_task s descr reqs compl =
     (let new_id = get_new_task_id s;
          t = \<lparr>id_field = new_id, description = descr, requirements = reqs,
               completed = compl, notes_field = PStr ''''\<rparr>;
          s1 = s\<lparr>tasks := tasks s @ [t]\<rparr>
      in case (if \<not> silence_actions s1
               then console_print [Lit ''Created task: [italic]'', Val descr, Lit ''[/italic]'']
                      ''green'' s1
               else Inr s1) of
           Inr s2 \<Rightarrow> (Returned True, publish ''task_created'' t s2)
         | Inl e \<Rightarrow> except_handler ''Error creating task: '' e s1)"

text \<open>
  The loop the three other operations share,
  \<^verbatim>\<open>for task in self.tasks: if task.id == task_id: ...; return True\<close>:
  the position of the first task whose identifier equals \<open>task_id\<close>, if there is one. An
  identifier is a \<^verbatim>\<open>str\<close>, so it equals no value that is not one.
\<close>

fun first_match :: "pyval \<Rightarrow> task list \<Rightarrow> nat option" where
  "first_match task_id [] = None"
| "first_match task_id (t # ts) =
     (if PStr (id_field t) = task_id then Some 0
      else map_option Suc (first_match task_id ts))"

text \<open>
  The three operations: on the first match the field is set, the event is published and
  the notice is printed unless actions are silenced; without a match the not-found line is
  printed, silenced or not. Both prints stand inside the \<^verbatim>\<open>try\<close> block.
\<close>

definition complete_task :: "agency \<Rightarrow> pyval \<Rightarrow> bool outcome \<times> agency" where
  "complete_task s task_id =
     (case first_match task_id (tasks s) of
        Some i \<Rightarrow>
          (let t = (tasks s ! i)\<lparr>completed := PBool True\<rparr>;
               s1 = s\<lparr>tasks := (tasks s)[i := t]\<rparr>;
               s2 = publish ''task_completed'' t s1
           in case (if \<not> silence_actions s2
                    then console_print
                           [Lit ''Completed task: [italic]'', Val (description t), Lit ''[/italic]'']
                           ''green'' s2
                    else Inr s2) of
                Inr s3 \<Rightarrow> (Returned True, s3)
              | Inl e \<Rightarrow> except_handler ''Error completing task: '' e s2)
      | None \<Rightarrow>
          (case console_print [Lit ''Task '', Val task_id, Lit '' not found.''] ''bold red'' s of
             Inr s' \<Rightarrow> (Returned False, s')
           | Inl e \<Rightarrow> except_handler ''Error completing task: '' e s))"

definition modify_task_notes :: "agency \<Rightarrow> pyval \<Rightarrow> pyval \<Rightarrow> bool outcome \<times> agency" where
  "modify_task_notes s task_id new_notes =
     (case first_match task_id (tasks s) of
        Some i \<Rightarrow>
          (let t = (tasks s ! i)\<lparr>notes_field := new_notes\<rparr>;
               s1 = s\<lparr>tasks := (tasks s)[i := t]\<rparr>;
               s2 = publish ''task_notes_modified'' t s1
           in case (if \<not> silence_actions s2
                    then console_print
                           [Lit ''Modified notes for task: [italic]'', Val (description t),
                            Lit ''[/italic]'']
                           ''green'' s2
                    else Inr s2) of
                Inr s3 \<Rightarrow> (Returned True, s3)
              | Inl e \<Rightarrow> except_handler ''Error modifying notes: '' e s2)
      | None \<Rightarrow>
          (case console_print [Lit ''Task '', Val task_id, Lit '' not found.''] ''bold red'' s of
             Inr s' \<Rightarrow> (Returned False, s')
           | Inl e \<Rightarrow> except_handler ''Error modifying notes: '' e s))"

definition modify_task_requirements :: "agency \<Rightarrow> pyval \<Rightarrow> pyval \<Rightarrow> bool outcome \<times> agency" where
  "modify_task_requirements s task_id new_reqs =
     (case first_match task_id (tasks s) of
        Some i \<Rightarrow>
          (let t = (tasks s ! i)\<lparr>requirements := new_reqs\<rparr>;
               s1 = s\<lparr>tasks := (tasks s)[i := t]\<rparr>;
               s2 = publish ''task_requirements_modified'' t s1
           in case (if \<not> silence_actions s2
                    then console_print
                           [Lit ''Modified requirements for task: [italic]'', Val (description t),
                            Lit ''[/italic]'']
                           ''green'' s2
                    else Inr s2) of
                Inr s3 \<Rightarrow> (Returned True, s3)
              | Inl e \<Rightarrow> except_handler ''Error modifying requirements: '' e s2)
      | None \<Rightarrow>
          (case console_print [Lit ''Task '', Val task_id, Lit '' not found.''] ''bold red'' s of
             Inr s' \<Rightarrow> (Returned False, s')
           | Inl e \<Rightarrow> except_handler ''Error modifying requirements: '' e s))"

text \<open>
  A call of one of the four operations, and a sequence of calls, each run on the tracker
  as the one before left it, whether that returned or raised.
\<close>

datatype op =
    CreateTask pyval pyval pyval
  | CompleteTask pyval
  | ModifyTaskNotes pyval pyval
  | ModifyTaskRequirements pyval pyval

fun call_op :: "agency \<Rightarrow> op \<Rightarrow> bool outcome \<times> agency" where
  "call_op s (CreateTask descr reqs compl) = create_task s descr reqs compl"
| "call_op s (CompleteTask task_id) = complete_task s task_id"
| "call_op s (ModifyTaskNotes task_id new_notes) = modify_task_notes s task_id new_notes"
| "call_op s (ModifyTaskRequirements task_id new_reqs) = modify_task_requirements s task_id new_reqs"

fun run_ops :: "agency \<Rightarrow> op list \<Rightarrow> agency" where
  "run_ops s [] = s"
| "run_ops s (c # cs) = run_ops (snd (call_op s c)) cs"

fun is_create :: "op \<Rightarrow> bool" where
  "is_create (CreateTask descr reqs compl) = True"
| "is_create c = False"

text \<open>Reading a task back by its identifier, the way the loops of the operations find it.\<close>

definition find_task :: "agency \<Rightarrow> pyval \<Rightarrow> task option" where
  "find_task s task_id = map_option (\<lambda>i. tasks s ! i) (first_match task_id (tasks s))"

text \<open>
  What the library answers on the texts of the examples below: a description that holds
  the path \<^verbatim>\<open>[/usr/bin]\<close> reads as a closing tag that closes nothing, and so does the
  message of the exception when the handler prints it. The messages, and the positions in
  them, are the library's. Every other text of the examples is printed.
\<close>

definition example_console :: "fstring \<Rightarrow> string option" where
  "example_console text_out =
     (if text_out = [Lit ''Created task: [italic]'', Val (PStr ''fix [/usr/bin] path''),
                     Lit ''[/italic]'']
      then Some ''closing tag '[/usr/bin]' at position 26 doesn't match any open tag''
      else if text_out = [Lit ''Error creating task: '',
             Val (PStr ''closing tag '[/usr/bin]' at position 26 doesn't match any open tag'')]
      then Some ''closing tag '[/usr/bin]' at position 34 doesn't match any open tag''
      else if text_out = [Lit ''Completed task: [italic]'', Val (PStr ''fix [/usr/bin] path''),
                          Lit ''[/italic]'']
      then Some ''closing tag '[/usr/bin]' at position 28 doesn't match any open tag''
      else if text_out = [Lit ''Error completing task: '',
             Val (PStr ''closing tag '[/usr/bin]' at position 28 doesn't match any open tag'')]
      then Some ''closing tag '[/usr/bin]' at position 36 doesn't match any open tag''
      else None)"

text \<open>
  The tracker of the examples: a new tracker with that console, on which one task has been
  created with the given description. With actions not silenced and the description
  \<^verbatim>\<open>fix [/usr/bin] path\<close> the creation raises, after it has appended the task.
\<close>

definition example_tracker :: "bool \<Rightarrow> string \<Rightarrow> agency" where
  "example_tracker silent descr =
     snd (create_task (init_agency silent example_console) (PStr descr) (PList [PStr ''r''])
            (PBool False))"

subsection \<open>The tools over the tracker\<close>

text \<open>
  The argument mapping of a tool call, and \<^verbatim>\<open>args.get(key)\<close>, which is \<^verbatim>\<open>None\<close> for
  a key the mapping does not have.
\<close>

type_synonym args = "string \<rightharpoonup> pyval"

definition args_get :: "args \<Rightarrow> string \<Rightarrow> pyval" where
  "args_get a k = (case a k of None \<Rightarrow> PNone | Some v \<Rightarrow> v)"

text \<open>
  The class \<^verbatim>\<open>Tool\<close> of \<^verbatim>\<open>tools/index.py\<close> is not among the sources; the record has the
  four fields the constructor calls of \<^verbatim>\<open>agency.py\<close> give it. The function of a tracker
  tool closes over the tracker, so here it takes the tracker's state and returns the new
  one with its text; its second parameter, the bus, is used by none of the four. None of
  the four guards its call of the operation: an exception that leaves the operation leaves
  the tool.
\<close>

record tool =
  tool_name :: string
  tool_description :: string
  tool_function :: "agency \<Rightarrow> args \<Rightarrow> fstring outcome \<times> agency"
  parameters :: pyval

text \<open>The list under \<^verbatim>\<open>"required"\<close> of a tool's schema.\<close>

fun str_items :: "pyval list \<Rightarrow> string list" where
  "str_items [] = []"
| "str_items (PStr k # vs) = k # str_items vs"
| "str_items (v # vs) = str_items vs"

definition required_args :: "tool \<Rightarrow> string list" where
  "required_args t =
     (case parameters t of
        PDict kvs \<Rightarrow> (case map_of kvs ''required'' of Some (PList ks) \<Rightarrow> str_items ks | _ \<Rightarrow> [])
      | _ \<Rightarrow> [])"

definition create_task_tool_run :: "agency \<Rightarrow> args \<Rightarrow> fstring outcome \<times> agency" where
  "create_task_tool_run s a =
     (let descr = args_get a ''description'';
          reqs = args_get a ''requirements'';
          compl = py_or (args_get a ''completed'') (PBool False);
          new_id = get_new_task_id s
      in if \<not> truthy descr then (Returned [Lit ''Error creating task: No description provided.''], s)
         else if \<not> truthy reqs then (Returned [Lit ''Error creating task: No requirements provided.''], s)
         else if \<not> is_list reqs then (Returned [Lit ''Error creating task: Requirements must be a list.''], s)
         else (case create_task s descr reqs compl of
                 (Raised e, s') \<Rightarrow> (Raised e, s')
               | (Returned worked, s') \<Rightarrow>
                   if \<not> worked then (Returned [Lit ''Error creating task.''], s')
                   else (Returned [Lit ''Task created with id '', Val (PStr new_id), Lit ''.''], s')))"

definition create_task_tool :: tool where
  "create_task_tool =
     \<lparr>tool_name = ''create_task'',
      tool_description = ''Use this tool to create a new task.'',
      tool_function = create_task_tool_run,
      parameters = PDict
        [(''type'', PStr ''object''),
         (''properties'', PDict
            [(''description'', PDict
                [(''type'', PStr ''string''),
                 (''description'', PStr ''A description of the overall task.'')]),
             (''requirements'', PDict
                [(''type'', PStr ''array''),
                 (''description'', PStr ''A list of requirements for the task.''),
                 (''items'', PDict [(''type'', PStr ''string'')])]),
             (''completed'', PDict
                [(''type'', PStr ''boolean''),
                 (''description'',
                  PStr ''Whether the task is currently completed. Defaults to False.'')])]),
         (''required'', PList [PStr ''description'', PStr ''requirements''])]\<rparr>"

definition complete_task_tool_run :: "agency \<Rightarrow> args \<Rightarrow> fstring outcome \<times> agency" where
  "complete_task_tool_run s a =
     (let task_id = args_get a ''task_id''
      in if task_id = PNone then (Returned [Lit ''Task with id '', Val task_id, Lit '' not found.''], s)
         else (case complete_task s task_id of
                 (Raised e, s') \<Rightarrow> (Raised e, s')
               | (Returned worked, s') \<Rightarrow>
                   if \<not> worked
                   then (Returned [Lit ''Error completing task with id '', Val task_id, Lit ''.''], s')
                   else (Returned [Lit ''Task with id '', Val task_id, Lit '' marked as complete.''], s')))"

definition complete_task_tool :: tool where
  "complete_task_tool =
     \<lparr>tool_name = ''complete_task'',
      tool_description = ''Use this to mark a task complete.'',
      tool_function = complete_task_tool_run,
      parameters = PDict
        [(''type'', PStr ''object''),
         (''properties'', PDict
            [(''task_id'', PDict
                [(''type'', PStr ''string''),
                 (''description'', PStr ''The id of the task to complete.'')])]),
         (''required'', PList [PStr ''task_id''])]\<rparr>"

definition modify_task_notes_tool_run :: "agency \<Rightarrow> args \<Rightarrow> fstring outcome \<times> agency" where
  "modify_task_notes_tool_run s a =
     (let task_id = args_get a ''task_id'';
          new_notes = args_get a ''notes''
      in if task_id = PNone then (Returned [Lit ''Task with id '', Val task_id, Lit '' not found.''], s)
         else (case modify_task_notes s task_id new_notes of
                 (Raised e, s') \<Rightarrow> (Raised e, s')
               | (Returned worked, s') \<Rightarrow>
                   if \<not> worked
                   then (Returned [Lit ''Error modifying notes for task with id '', Val task_id, Lit ''.''], s')
                   else (Returned [Lit ''Notes for task with id '', Val task_id, Lit '' modified.''], s')))"

definition modify_task_notes_tool :: tool where
  "modify_task_notes_tool =
     \<lparr>tool_name = ''modify_task_notes'',
      tool_description = ''Use this to modify the notes for a task.'',
      tool_function = modify_task_notes_tool_run,
      parameters = PDict
        [(''type'', PStr ''object''),
         (''properties'', PDict
            [(''task_id'', PDict
                [(''type'', PStr ''string''),
                 (''description'', PStr ''The id of the task to modify.'')]),
             (''notes'', PDict
                [(''type'', PStr ''string''),
                 (''description'', PStr ''The new notes for the task.'')])]),
         (''required'', PList [PStr ''task_id'', PStr ''notes''])]\<rparr>"

definition modify_task_requirements_tool_run :: "agency \<Rightarrow> args \<Rightarrow> fstring outcome \<times> agency" where
  "modify_task_requirements_tool_run s a =
     (let task_id = args_get a ''task_id'';
          new_reqs = args_get a ''requirements''
      in if task_id = PNone then (Returned [Lit ''Task with id '', Val task_id, Lit '' not found.''], s)
         else if \<not> truthy new_reqs
         then (Returned [Lit ''Error modifying task: No requirements provided.''], s)
         else if \<not> is_list new_reqs
         then (Returned [Lit ''Error modifying task: Requirements must be a list.''], s)
         else (case modify_task_requirements s task_id new_reqs of
                 (Raised e, s') \<Rightarrow> (Raised e, s')
               | (Returned worked, s') \<Rightarrow>
                   if \<not> worked
                   then (Returned [Lit ''Error modifying requirements for task with id '', Val task_id,
                          Lit ''.''], s')
                   else (Returned [Lit ''Requirements for task with id '', Val task_id, Lit '' modified.''],
                         s')))"

definition modify_task_requirements_tool :: tool where
  "modify_task_requirements_tool =
     \<lparr>tool_name = ''modify_task_requirements'',
      tool_description = ''Use this to modify the requirements for a task.'',
      tool_function = modify_task_requirements_tool_run,
      parameters = PDict
        [(''type'', PStr ''object''),
         (''properties'', PDict
            [(''task_id'', PDict
                [(''type'', PStr ''string''),
                 (''description'', PStr ''The id of the task to modify.'')]),
             (''requirements'', PDict
                [(''type'', PStr ''array''),
                 (''description'', PStr ''The new requirements for the task.''),
                 (''items'', PDict [(''type'', PStr ''string'')])])]),
         (''required'', PList [PStr ''task_id'', PStr ''requirements''])]\<rparr>"

section \<open>The model client: \<^verbatim>\<open>src/llms/llm.py\<close>\<close>

text \<open>
  Modelled from the spec: \<^verbatim>\<open>ToolCall\<close> of \<^verbatim>\<open>tools/index.py\<close>, which is not among the
  sources: "identifier, tool name, argument mapping".
\<close>

record tool_call =
  call_id :: string
  call_name :: string
  arguments :: args

text \<open>The dataclass \<^verbatim>\<open>Message\<close>; its field \<^verbatim>\<open>id\<close> is \<open>msg_id\<close>.\<close>

record message =
  msg_id :: "string option"
  content :: "string option"
  role :: string
  tool_calls :: "tool_call list option"
  tool_call_id :: "string option"

text \<open>
  The class \<^verbatim>\<open>LLM\<close>. The constructor does not set \<^verbatim>\<open>system_prompt\<close> (the class
  only annotates it), so the attribute is absent until \<^verbatim>\<open>startup\<close> runs, and reading it
  before raises \<^verbatim>\<open>AttributeError\<close>. The backend \<^verbatim>\<open>get_model_response\<close> is a function of
  its three arguments. \<^verbatim>\<open>on_startup\<close> takes no argument and returns nothing: what it
  does lies outside the object and is left out.
\<close>

datatype py_error = AttributeError

record llm =
  llm_name :: string
  model_name :: string
  get_model_response :: "message list \<Rightarrow> tool list \<Rightarrow> string \<Rightarrow> message"
  system_prompt :: "string option"

definition init_llm ::
  "string \<Rightarrow> string \<Rightarrow> (message list \<Rightarrow> tool list \<Rightarrow> string \<Rightarrow> message) \<Rightarrow> llm" where
  "init_llm n m f =
     \<lparr>llm_name = n, model_name = m, get_model_response = f, system_prompt = None\<rparr>"

definition startup :: "llm \<Rightarrow> string \<Rightarrow> llm" where
  "startup l p = l\<lparr>system_prompt := Some p\<rparr>"

definition get_response :: "llm \<Rightarrow> message list \<Rightarrow> tool list \<Rightarrow> py_error + message \<times> llm" where
  "get_response l messages tools =
     (case system_prompt l of
        None \<Rightarrow> Inl AttributeError
      | Some p \<Rightarrow> Inr (get_model_response l messages tools p, l))"

definition get_text_response :: "llm \<Rightarrow> string \<Rightarrow> string \<Rightarrow> string \<times> llm" where
  "get_text_response l msg p =
     (let response = get_model_response l
            [\<lparr>msg_id = None, content = Some msg, role = ''user'', tool_calls = None,
              tool_call_id = None\<rparr>] [] p
      in case content response of
           None \<Rightarrow> ('''', l)
         | Some c \<Rightarrow> if c = [] then ('''', l) else (c, l))"

text \<open>\<^verbatim>\<open>self.system_prompt += f"\n{message}"\<close>, and the new prompt is returned.\<close>

definition append_to_system_prompt :: "llm \<Rightarrow> string \<Rightarrow> py_error + string \<times> llm" where
  "append_to_system_prompt l msg =
     (case system_prompt l of
        None \<Rightarrow> Inl AttributeError
      | Some p \<Rightarrow>
          (let p' = p @ ''\<newline>'' @ msg
           in Inr (p', l\<lparr>system_prompt := Some p'\<rparr>)))"

section \<open>Properties\<close>

subsection \<open>Decimal numerals\<close>

lemma digit_val_char: "d < 10 \<Longrightarrow> digit_val (digit_char d) = d"
  by (simp add: digit_val_def digit_char_def)

lemma nat_of_str_snoc: "nat_of_str (s @ [c]) = 10 * nat_of_str s + digit_val c"
  by (simp add: nat_of_str_def)

lemma nat_of_str_nat: "nat_of_str (str_nat n) = n"
proof (induction n rule: str_nat.induct)
  case (1 n)
  show ?case
  proof (cases "n < 10")
    case True
    then show ?thesis
      by (subst str_nat.simps) (simp add: nat_of_str_def digit_val_char)
  next
    case False
    then have "nat_of_str (str_nat n) =
        10 * nat_of_str (str_nat (n div 10)) + digit_val (digit_char (n mod 10))"
      by (subst str_nat.simps) (simp add: nat_of_str_snoc)
    also have "\<dots> = 10 * (n div 10) + n mod 10"
      using 1 False by (simp add: digit_val_char)
    finally show ?thesis by simp
  qed
qed

lemma str_nat_inj: "str_nat m = str_nat n \<Longrightarrow> m = n"
  by (metis nat_of_str_nat)

lemma str_nat_1: "str_nat (Suc 0) = ''1''"
  by code_simp

lemma str_nat_2: "str_nat (Suc (Suc 0)) = ''2''"
  by code_simp

lemma task_names_distinct: "distinct (map (\<lambda>k. ''task_'' @ str_nat k) [m..<n])"
  by (simp add: distinct_map inj_on_def str_nat_inj)

subsection \<open>The loop\<close>

lemma first_match_None:
  "first_match task_id ts = None \<longleftrightarrow> (\<forall>t \<in> set ts. PStr (id_field t) \<noteq> task_id)"
  by (induction ts) auto

lemma first_match_Some:
  "first_match task_id ts = Some i \<Longrightarrow>
     i < length ts \<and> PStr (id_field (ts ! i)) = task_id \<and>
     (\<forall>j < i. PStr (id_field (ts ! j)) \<noteq> task_id)"
proof (induction ts arbitrary: i)
  case Nil
  then show ?case by simp
next
  case (Cons t ts)
  show ?case
  proof (cases "PStr (id_field t) = task_id")
    case True
    with Cons.prems show ?thesis by simp
  next
    case False
    with Cons.prems obtain k where k: "first_match task_id ts = Some k" "i = Suc k"
      by auto
    from Cons.IH [OF k(1)] False k(2) show ?thesis
      by (auto simp: less_Suc_eq_0_disj)
  qed
qed

lemma known_first_match:
  "(\<exists>t \<in> set ts. PStr (id_field t) = task_id) \<longleftrightarrow> (\<exists>i. first_match task_id ts = Some i)"
  using first_match_None [of task_id ts] by (cases "first_match task_id ts") auto

text \<open>The first match depends on the identifiers alone.\<close>

lemma first_match_cong:
  "map id_field ts' = map id_field ts \<Longrightarrow> first_match task_id ts' = first_match task_id ts"
proof (induction ts arbitrary: ts')
  case Nil
  then show ?case by simp
next
  case (Cons t ts)
  then obtain u us where "ts' = u # us" "id_field u = id_field t" "map id_field us = map id_field ts"
    by (cases ts') auto
  with Cons.IH [of us] show ?case by simp
qed

lemma map_id_field_update:
  "i < length ts \<Longrightarrow> id_field u = id_field (ts ! i) \<Longrightarrow> map id_field (ts[i := u]) = map id_field ts"
  by (simp add: map_update list_update_same_conv)

lemma first_match_update:
  "first_match task_id ts = Some i \<Longrightarrow> id_field u = id_field (ts ! i) \<Longrightarrow>
     first_match task_id (ts[i := u]) = Some i"
  using first_match_Some [of task_id ts i] first_match_cong [OF map_id_field_update, of i ts u task_id]
  by simp

lemma find_task_after_update:
  assumes "first_match task_id (tasks s) = Some i" and "tasks s' = (tasks s)[i := u]"
    and "id_field u = id_field (tasks s ! i)"
  shows "find_task s' task_id = Some u"
  using assms first_match_update [of task_id "tasks s" i u] first_match_Some [of task_id "tasks s" i]
  by (simp add: find_task_def)

lemma update_keeps:
  assumes "i < length ts" and "id_field u = id_field (ts ! i)"
    and "truthy (completed (ts ! i)) \<longrightarrow> truthy (completed u)"
    and "j < length ts"
  shows "id_field (ts[i := u] ! j) = id_field (ts ! j)
       \<and> (truthy (completed (ts ! j)) \<longrightarrow> truthy (completed (ts[i := u] ! j)))"
  using assms by (cases "i = j") simp_all

subsection \<open>What each operation does\<close>

lemma init_agency_sel:
  "tasks (init_agency silent rej) = []" "pubsub (init_agency silent rej) = []"
  "console_out (init_agency silent rej) = []" "silence_actions (init_agency silent rej) = silent"
  "console_rejects (init_agency silent rej) = rej"
  by (simp_all add: init_agency_def)

lemma task_1_name: "get_new_task_id (init_agency silent rej) = ''task_1''"
  by (simp add: get_new_task_id_def init_agency_def str_nat_1)

text \<open>The handler changes nothing but the console, and never returns \<^verbatim>\<open>True\<close>.\<close>

lemma except_handler_frame:
  "tasks (snd (except_handler label e s)) = tasks s"
  "pubsub (snd (except_handler label e s)) = pubsub s"
  "silence_actions (snd (except_handler label e s)) = silence_actions s"
  "console_rejects (snd (except_handler label e s)) = console_rejects s"
  "fst (except_handler label e s) \<noteq> Returned True"
  by (simp_all add: except_handler_def console_print_def split: option.splits)

text \<open>
  \<^verbatim>\<open>create_task\<close> appends its task on every path; it returns \<^verbatim>\<open>True\<close> exactly when
  its notice is silenced or printed, and publishes exactly then.
\<close>

lemma create_task_tasks:
  "tasks (snd (create_task s descr reqs compl)) =
     tasks s @ [\<lparr>id_field = get_new_task_id s, description = descr, requirements = reqs,
                 completed = compl, notes_field = PStr ''''\<rparr>]"
  by (simp add: create_task_def Let_def publish_def console_print_def except_handler_def
      split: option.splits)

lemma create_task_returns:
  "fst (create_task s descr reqs compl) = Returned True \<longleftrightarrow>
     silence_actions s \<or>
     console_rejects s [Lit ''Created task: [italic]'', Val descr, Lit ''[/italic]''] = None"
  by (simp add: create_task_def Let_def publish_def console_print_def except_handler_def
      split: option.splits)

lemma create_task_pubsub:
  "pubsub (snd (create_task s descr reqs compl)) =
     pubsub s @
     (if fst (create_task s descr reqs compl) = Returned True
      then [(''task_created'',
             \<lparr>id_field = get_new_task_id s, description = descr, requirements = reqs,
              completed = compl, notes_field = PStr ''''\<rparr>)]
      else [])"
  by (simp add: create_task_def Let_def publish_def console_print_def except_handler_def
      split: option.splits)

lemma create_task_frame:
  "silence_actions (snd (create_task s descr reqs compl)) = silence_actions s"
  "console_rejects (snd (create_task s descr reqs compl)) = console_rejects s"
  by (simp_all add: create_task_def Let_def publish_def console_print_def except_handler_def
      split: option.splits)

text \<open>
  On a match the three other operations set their field and publish their event on every
  path, and return \<^verbatim>\<open>True\<close> exactly when the notice is silenced or printed.
\<close>

lemma complete_task_hit:
  assumes "first_match task_id (tasks s) = Some i"
  shows "tasks (snd (complete_task s task_id)) =
           (tasks s)[i := (tasks s ! i)\<lparr>completed := PBool True\<rparr>]"
    and "pubsub (snd (complete_task s task_id)) =
           pubsub s @ [(''task_completed'', (tasks s ! i)\<lparr>completed := PBool True\<rparr>)]"
    and "fst (complete_task s task_id) = Returned True \<longleftrightarrow>
           silence_actions s \<or>
           console_rejects s [Lit ''Completed task: [italic]'', Val (description (tasks s ! i)),
             Lit ''[/italic]''] = None"
  using assms
  by (simp_all add: complete_task_def Let_def publish_def console_print_def except_handler_def
      split: option.splits)

lemma modify_task_notes_hit:
  assumes "first_match task_id (tasks s) = Some i"
  shows "tasks (snd (modify_task_notes s task_id v)) =
           (tasks s)[i := (tasks s ! i)\<lparr>notes_field := v\<rparr>]"
    and "pubsub (snd (modify_task_notes s task_id v)) =
           pubsub s @ [(''task_notes_modified'', (tasks s ! i)\<lparr>notes_field := v\<rparr>)]"
    and "fst (modify_task_notes s task_id v) = Returned True \<longleftrightarrow>
           silence_actions s \<or>
           console_rejects s [Lit ''Modified notes for task: [italic]'',
             Val (description (tasks s ! i)), Lit ''[/italic]''] = None"
  using assms
  by (simp_all add: modify_task_notes_def Let_def publish_def console_print_def
      except_handler_def split: option.splits)

lemma modify_task_requirements_hit:
  assumes "first_match task_id (tasks s) = Some i"
  shows "tasks (snd (modify_task_requirements s task_id v)) =
           (tasks s)[i := (tasks s ! i)\<lparr>requirements := v\<rparr>]"
    and "pubsub (snd (modify_task_requirements s task_id v)) =
           pubsub s @ [(''task_requirements_modified'', (tasks s ! i)\<lparr>requirements := v\<rparr>)]"
    and "fst (modify_task_requirements s task_id v) = Returned True \<longleftrightarrow>
           silence_actions s \<or>
           console_rejects s [Lit ''Modified requirements for task: [italic]'',
             Val (description (tasks s ! i)), Lit ''[/italic]''] = None"
  using assms
  by (simp_all add: modify_task_requirements_def Let_def publish_def console_print_def
      except_handler_def split: option.splits)

text \<open>
  Without a match they change neither the list nor the bus and do not return \<^verbatim>\<open>True\<close>;
  when the console prints the not-found line, they return \<^verbatim>\<open>False\<close>.
\<close>

lemma complete_task_miss:
  assumes "first_match task_id (tasks s) = None"
  shows "tasks (snd (complete_task s task_id)) = tasks s"
    and "pubsub (snd (complete_task s task_id)) = pubsub s"
    and "fst (complete_task s task_id) \<noteq> Returned True"
    and "console_rejects s [Lit ''Task '', Val task_id, Lit '' not found.''] = None \<Longrightarrow>
         complete_task s task_id =
           (Returned False, s\<lparr>console_out := console_out s @
              [([Lit ''Task '', Val task_id, Lit '' not found.''], ''bold red'')]\<rparr>)"
  using assms
  by (simp_all add: complete_task_def console_print_def except_handler_def split: option.splits)

lemma modify_task_notes_miss:
  assumes "first_match task_id (tasks s) = None"
  shows "tasks (snd (modify_task_notes s task_id v)) = tasks s"
    and "pubsub (snd (modify_task_notes s task_id v)) = pubsub s"
    and "fst (modify_task_notes s task_id v) \<noteq> Returned True"
    and "console_rejects s [Lit ''Task '', Val task_id, Lit '' not found.''] = None \<Longrightarrow>
         modify_task_notes s task_id v =
           (Returned False, s\<lparr>console_out := console_out s @
              [([Lit ''Task '', Val task_id, Lit '' not found.''], ''bold red'')]\<rparr>)"
  using assms
  by (simp_all add: modify_task_notes_def console_print_def except_handler_def
      split: option.splits)

lemma modify_task_requirements_miss:
  assumes "first_match task_id (tasks s) = None"
  shows "tasks (snd (modify_task_requirements s task_id v)) = tasks s"
    and "pubsub (snd (modify_task_requirements s task_id v)) = pubsub s"
    and "fst (modify_task_requirements s task_id v) \<noteq> Returned True"
    and "console_rejects s [Lit ''Task '', Val task_id, Lit '' not found.''] = None \<Longrightarrow>
         modify_task_requirements s task_id v =
           (Returned False, s\<lparr>console_out := console_out s @
              [([Lit ''Task '', Val task_id, Lit '' not found.''], ''bold red'')]\<rparr>)"
  using assms
  by (simp_all add: modify_task_requirements_def console_print_def except_handler_def
      split: option.splits)

text \<open>No call changes whether actions are silenced or what the console answers.\<close>

lemma call_op_frame:
  "silence_actions (snd (call_op s c)) = silence_actions s
   \<and> console_rejects (snd (call_op s c)) = console_rejects s"
  by (cases c)
    (simp_all add: create_task_def complete_task_def modify_task_notes_def
      modify_task_requirements_def Let_def publish_def console_print_def except_handler_def
      split: option.splits)

lemma run_ops_frame:
  "silence_actions (run_ops s cs) = silence_actions s
   \<and> console_rejects (run_ops s cs) = console_rejects s"
  by (induction cs arbitrary: s) (simp_all add: call_op_frame)

text \<open>
  The identifiers of the list after a call: a creation adds the next one at the end, the
  three other operations leave them as they were.
\<close>

lemma call_op_ids:
  "map id_field (tasks (snd (call_op s c))) =
     map id_field (tasks s) @ (if is_create c then [get_new_task_id s] else [])"
proof (cases c)
  case (CreateTask d r k)
  then show ?thesis by (simp add: create_task_tasks)
next
  case (CompleteTask task_id)
  show ?thesis
  proof (cases "first_match task_id (tasks s)")
    case None
    with CompleteTask show ?thesis by (simp add: complete_task_miss)
  next
    case (Some i)
    with CompleteTask first_match_Some [OF Some] show ?thesis
      by (simp add: complete_task_hit [OF Some] map_id_field_update)
  qed
next
  case (ModifyTaskNotes task_id v)
  show ?thesis
  proof (cases "first_match task_id (tasks s)")
    case None
    with ModifyTaskNotes show ?thesis by (simp add: modify_task_notes_miss)
  next
    case (Some i)
    with ModifyTaskNotes first_match_Some [OF Some] show ?thesis
      by (simp add: modify_task_notes_hit [OF Some] map_id_field_update)
  qed
next
  case (ModifyTaskRequirements task_id v)
  show ?thesis
  proof (cases "first_match task_id (tasks s)")
    case None
    with ModifyTaskRequirements show ?thesis
      by (simp add: modify_task_requirements_miss)
  next
    case (Some i)
    with ModifyTaskRequirements first_match_Some [OF Some] show ?thesis
      by (simp add: modify_task_requirements_hit [OF Some] map_id_field_update)
  qed
qed

lemma run_ops_ids:
  "map id_field (tasks s) = map (\<lambda>k. ''task_'' @ str_nat k) [1..<Suc (length (tasks s))] \<Longrightarrow>
   map id_field (tasks (run_ops s cs)) =
     map (\<lambda>k. ''task_'' @ str_nat k) [1..<Suc (length (tasks s) + length (filter is_create cs))]"
proof (induction cs arbitrary: s)
  case Nil
  then show ?case by simp
next
  case (Cons c cs)
  let ?s' = "snd (call_op s c)"
  have len: "length (tasks ?s') = length (tasks s) + (if is_create c then 1 else 0)"
    using arg_cong [OF call_op_ids [of s c], of length] by simp
  have "map id_field (tasks ?s') = map (\<lambda>k. ''task_'' @ str_nat k) [1..<Suc (length (tasks ?s'))]"
    using Cons.prems by (simp add: call_op_ids len get_new_task_id_def)
  from Cons.IH [OF this] show ?case
    by (simp add: len)
qed

lemma count_list_filter_if:
  "count_list (filter P xs) x = (if P x then count_list xs x else 0)"
  by (induction xs) auto

subsection \<open>The tools that test their arguments\<close>

lemma args_get_absent: "a k = None \<Longrightarrow> args_get a k = PNone"
  by (simp add: args_get_def)

lemma create_task_tool_validates:
  assumes "k \<in> set (required_args create_task_tool)" and "a k = None"
  shows "snd (tool_function create_task_tool s a) = s
       \<and> fst (tool_function create_task_tool s a) \<in>
           {Returned [Lit ''Error creating task: No description provided.''],
            Returned [Lit ''Error creating task: No requirements provided.'']}"
proof -
  from assms(1) have "k = ''description'' \<or> k = ''requirements''"
    by (simp add: required_args_def create_task_tool_def)
  with assms(2) have "args_get a ''description'' = PNone \<or> args_get a ''requirements'' = PNone"
    by (auto simp: args_get_absent)
  then show ?thesis
    by (auto simp: create_task_tool_def create_task_tool_run_def Let_def)
qed

lemma complete_task_tool_validates:
  assumes "k \<in> set (required_args complete_task_tool)" and "a k = None"
  shows "tool_function complete_task_tool s a =
           (Returned [Lit ''Task with id '', Val PNone, Lit '' not found.''], s)"
proof -
  from assms(1) have "k = ''task_id''"
    by (simp add: required_args_def complete_task_tool_def)
  with assms(2) have "args_get a ''task_id'' = PNone"
    by (simp add: args_get_absent)
  then show ?thesis
    by (simp add: complete_task_tool_def complete_task_tool_run_def Let_def)
qed

lemma modify_task_requirements_tool_validates:
  assumes "k \<in> set (required_args modify_task_requirements_tool)" and "a k = None"
  shows "snd (tool_function modify_task_requirements_tool s a) = s
       \<and> fst (tool_function modify_task_requirements_tool s a) \<in>
           {Returned [Lit ''Task with id '', Val PNone, Lit '' not found.''],
            Returned [Lit ''Error modifying task: No requirements provided.'']}"
proof -
  from assms(1) have "k = ''task_id'' \<or> k = ''requirements''"
    by (simp add: required_args_def modify_task_requirements_tool_def)
  with assms(2) have "args_get a ''task_id'' = PNone \<or> args_get a ''requirements'' = PNone"
    by (auto simp: args_get_absent)
  then show ?thesis
    by (auto simp: modify_task_requirements_tool_def modify_task_requirements_tool_run_def Let_def)
qed

lemma modify_task_notes_tool_validates_task_id:
  assumes "a ''task_id'' = None"
  shows "tool_function modify_task_notes_tool s a =
           (Returned [Lit ''Task with id '', Val PNone, Lit '' not found.''], s)"
  using assms
  by (simp add: modify_task_notes_tool_def modify_task_notes_tool_run_def Let_def args_get_absent)

subsection \<open>The trackers of the examples\<close>

lemma example_tracker_sel:
  "tasks (example_tracker silent descr) =
     [\<lparr>id_field = ''task_1'', description = PStr descr, requirements = PList [PStr ''r''],
       completed = PBool False, notes_field = PStr ''''\<rparr>]"
  "silence_actions (example_tracker silent descr) = silent"
  "console_rejects (example_tracker silent descr) = example_console"
  by (simp_all add: example_tracker_def create_task_tasks create_task_frame init_agency_sel
      task_1_name)

lemma example_tracker_first_match:
  "first_match (PStr ''task_1'') (tasks (example_tracker silent descr)) = Some 0"
  "first_match (PStr ''task_7'') (tasks (example_tracker silent descr)) = None"
  by (simp_all add: example_tracker_sel)

lemma example_tracker_pubsub:
  "pubsub (example_tracker False ''d'') =
     [(''task_created'',
       \<lparr>id_field = ''task_1'', description = PStr ''d'', requirements = PList [PStr ''r''],
        completed = PBool False, notes_field = PStr ''''\<rparr>)]"
  "pubsub (example_tracker False ''fix [/usr/bin] path'') = []"
  by (simp_all add: example_tracker_def create_task_pubsub create_task_returns init_agency_sel
      task_1_name example_console_def)

lemma example_console_not_found:
  "example_console [Lit ''Task '', Val (PStr ''task_7''), Lit '' not found.''] = None"
  by (simp add: example_console_def)

section \<open>The claims\<close>

text \<open>
  C1. Each of the four tools returns an error text, and leaves the tracker alone, when an
  argument its schema requires is absent from the call. The three lemmas above show this
  for \<^verbatim>\<open>create_task\<close>, \<^verbatim>\<open>complete_task\<close> and \<^verbatim>\<open>modify_task_requirements\<close>, and the fourth
  for the \<^verbatim>\<open>task_id\<close> of \<^verbatim>\<open>modify_task_notes\<close>. The schema of \<^verbatim>\<open>modify_task_notes\<close> also
  requires \<^verbatim>\<open>notes\<close>, which its function never tests: on a silenced tracker that holds
  \<^verbatim>\<open>task_1\<close>, whatever its console, a call that gives only the \<^verbatim>\<open>task_id\<close> runs the
  operation, reports success and leaves \<^verbatim>\<open>None\<close> as the notes of the task.
\<close>

theorem C1_notes_tool_runs_without_notes:
  "''notes'' \<in> set (required_args modify_task_notes_tool)
   \<and> [''task_id'' \<mapsto> PStr ''task_1''] ''notes'' = None
   \<and> tasks (snd (create_task (init_agency True rej) (PStr ''d'') (PList [PStr ''r''])
        (PBool False))) =
       [\<lparr>id_field = ''task_1'', description = PStr ''d'', requirements = PList [PStr ''r''],
         completed = PBool False, notes_field = PStr ''''\<rparr>]
   \<and> fst (tool_function modify_task_notes_tool
        (snd (create_task (init_agency True rej) (PStr ''d'') (PList [PStr ''r'']) (PBool False)))
        [''task_id'' \<mapsto> PStr ''task_1'']) =
       Returned [Lit ''Notes for task with id '', Val (PStr ''task_1''), Lit '' modified.'']
   \<and> tasks (snd (tool_function modify_task_notes_tool
        (snd (create_task (init_agency True rej) (PStr ''d'') (PList [PStr ''r'']) (PBool False)))
        [''task_id'' \<mapsto> PStr ''task_1''])) =
       [\<lparr>id_field = ''task_1'', description = PStr ''d'', requirements = PList [PStr ''r''],
         completed = PBool False, notes_field = PNone\<rparr>]"
  by (simp add: required_args_def modify_task_notes_tool_def modify_task_notes_tool_run_def
      args_get_def create_task_tasks task_1_name modify_task_notes_def Let_def publish_def
      console_print_def create_task_def init_agency_sel)

text \<open>
  C2, as the spec has it: \<^verbatim>\<open>create_task\<close> with an empty list of requirements fails and
  appends nothing. The operation tests none of its arguments: on a new tracker it returns
  \<^verbatim>\<open>True\<close> and the list, empty before, holds the task with its empty requirements.
\<close>

theorem C2_create_task_accepts_empty_requirements:
  "fst (create_task (init_agency True example_console) (PStr ''d'') (PList []) (PBool False)) =
     Returned True
   \<and> map requirements
        (tasks (snd (create_task (init_agency True example_console) (PStr ''d'') (PList [])
           (PBool False)))) =
       [PList []]
   \<and> tasks (init_agency True example_console) = []"
  by (simp add: create_task_returns create_task_tasks init_agency_sel)

text \<open>
  C2, amended: the test is the \<^verbatim>\<open>create_task\<close> tool's. Called with an empty list of
  requirements it returns an error text (the one about the description when that is missing
  or empty too) and the tracker it returns is the one it was given: no task is appended.
\<close>

theorem C2_create_task_tool_rejects_empty_requirements:
  assumes "args_get a ''requirements'' = PList []"
  shows "tool_function create_task_tool s a =
           (Returned (if truthy (args_get a ''description'')
                      then [Lit ''Error creating task: No requirements provided.'']
                      else [Lit ''Error creating task: No description provided.'']), s)"
  using assms by (simp add: create_task_tool_def create_task_tool_run_def Let_def)

text \<open>C2, amended, on a call with a description and an empty list.\<close>

theorem C2_create_task_tool_rejects_empty_requirements_witness:
  "tool_function create_task_tool (init_agency True example_console)
     [''description'' \<mapsto> PStr ''d'', ''requirements'' \<mapsto> PList []] =
     (Returned [Lit ''Error creating task: No requirements provided.''],
      init_agency True example_console)"
  using C2_create_task_tool_rejects_empty_requirements
    [of "[''description'' \<mapsto> PStr ''d'', ''requirements'' \<mapsto> PList []]"
        "init_agency True example_console"]
  by (simp add: args_get_def)

text \<open>
  C3, as the spec has it: on an unknown identifier the three operations return false and
  an event is published on the \<^verbatim>\<open>error\<close> topic. On a tracker that holds \<^verbatim>\<open>task_1\<close>,
  whose bus has seen the creation of that task and nothing else, each of them returns false
  on \<^verbatim>\<open>task_7\<close> and the bus has still seen that one event.
\<close>

theorem C3_unknown_id_publishes_no_event:
  "fst (complete_task (example_tracker False ''d'') (PStr ''task_7'')) = Returned False
   \<and> map fst (pubsub (snd (complete_task (example_tracker False ''d'') (PStr ''task_7'')))) =
       [''task_created'']
   \<and> fst (modify_task_notes (example_tracker False ''d'') (PStr ''task_7'') (PStr ''n'')) =
       Returned False
   \<and> map fst (pubsub (snd (modify_task_notes (example_tracker False ''d'') (PStr ''task_7'')
        (PStr ''n'')))) = [''task_created'']
   \<and> fst (modify_task_requirements (example_tracker False ''d'') (PStr ''task_7'')
        (PList [PStr ''q''])) = Returned False
   \<and> map fst (pubsub (snd (modify_task_requirements (example_tracker False ''d'')
        (PStr ''task_7'') (PList [PStr ''q''])))) = [''task_created'']"
  by (simp add: complete_task_miss modify_task_notes_miss modify_task_requirements_miss
      example_tracker_first_match example_tracker_sel example_tracker_pubsub
      example_console_not_found)

text \<open>
  C3, amended: on an identifier no task of the list has, and whose not-found line the
  console prints, each of \<^verbatim>\<open>complete_task\<close>, \<^verbatim>\<open>modify_task_notes\<close> and
  \<^verbatim>\<open>modify_task_requirements\<close> returns false and changes nothing but the console, which
  has printed \<^verbatim>\<open>Task <id> not found.\<close> in bold red; the bus receives no event, on the
  \<^verbatim>\<open>error\<close> topic or any other.
\<close>

theorem C3_unknown_id_returns_false_and_prints:
  assumes "\<forall>t \<in> set (tasks s). PStr (id_field t) \<noteq> task_id"
    and "console_rejects s [Lit ''Task '', Val task_id, Lit '' not found.''] = None"
  shows "complete_task s task_id =
           (Returned False, s\<lparr>console_out := console_out s @
              [([Lit ''Task '', Val task_id, Lit '' not found.''], ''bold red'')]\<rparr>)
       \<and> modify_task_notes s task_id new_notes =
           (Returned False, s\<lparr>console_out := console_out s @
              [([Lit ''Task '', Val task_id, Lit '' not found.''], ''bold red'')]\<rparr>)
       \<and> modify_task_requirements s task_id new_reqs =
           (Returned False, s\<lparr>console_out := console_out s @
              [([Lit ''Task '', Val task_id, Lit '' not found.''], ''bold red'')]\<rparr>)
       \<and> pubsub (snd (complete_task s task_id)) = pubsub s
       \<and> pubsub (snd (modify_task_notes s task_id new_notes)) = pubsub s
       \<and> pubsub (snd (modify_task_requirements s task_id new_reqs)) = pubsub s"
proof -
  from assms(1) have miss: "first_match task_id (tasks s) = None"
    by (simp add: first_match_None)
  show ?thesis
    by (simp add: complete_task_miss [OF miss] modify_task_notes_miss [OF miss]
        modify_task_requirements_miss [OF miss] assms(2))
qed

text \<open>C3, amended, on the tracker that holds \<^verbatim>\<open>task_1\<close>, asked for \<^verbatim>\<open>task_7\<close>.\<close>

theorem C3_unknown_id_returns_false_and_prints_witness:
  "map id_field (tasks (example_tracker False ''d'')) = [''task_1'']
   \<and> fst (complete_task (example_tracker False ''d'') (PStr ''task_7'')) = Returned False
   \<and> pubsub (snd (complete_task (example_tracker False ''d'') (PStr ''task_7''))) =
       pubsub (example_tracker False ''d'')"
proof -
  have unknown: "\<forall>t \<in> set (tasks (example_tracker False ''d'')).
      PStr (id_field t) \<noteq> PStr ''task_7''"
    by (simp add: example_tracker_sel)
  have printed: "console_rejects (example_tracker False ''d'')
      [Lit ''Task '', Val (PStr ''task_7''), Lit '' not found.''] = None"
    by (simp add: example_tracker_sel example_console_not_found)
  show ?thesis
    using C3_unknown_id_returns_false_and_prints [OF unknown printed, of PNone PNone]
    by (simp add: example_tracker_sel)
qed

text \<open>
  C4. From a tracker with no task, after any sequence of calls of the four operations of
  which \<open>N\<close> are creations, the identifiers of the list are \<^verbatim>\<open>task_1\<close>, ...,
  \<^verbatim>\<open>task_N\<close> in the order of the calls and no two are equal, and a further creation
  puts \<^verbatim>\<open>task_(N+1)\<close> at the end. A creation is successful, that is returns
  \<^verbatim>\<open>True\<close>, exactly when its notice is silenced or printed; in a sequence of successful
  creations \<open>N\<close> is their number.
\<close>

theorem C4_task_ids_dense:
  assumes "tasks s = []"
  shows "map id_field (tasks (run_ops s cs)) =
           map (\<lambda>k. ''task_'' @ str_nat k) [1..<Suc (length (filter is_create cs))]
       \<and> distinct (map id_field (tasks (run_ops s cs)))
       \<and> map id_field (tasks (snd (create_task (run_ops s cs) descr reqs compl))) =
           map id_field (tasks (run_ops s cs)) @
             [''task_'' @ str_nat (Suc (length (filter is_create cs)))]
       \<and> (fst (create_task (run_ops s cs) descr reqs compl) = Returned True \<longleftrightarrow>
            silence_actions s \<or>
            console_rejects s [Lit ''Created task: [italic]'', Val descr, Lit ''[/italic]''] = None)"
proof -
  have ids: "map id_field (tasks (run_ops s cs)) =
           map (\<lambda>k. ''task_'' @ str_nat k) [1..<Suc (length (filter is_create cs))]"
    using run_ops_ids [of s cs] assms by simp
  have len: "length (tasks (run_ops s cs)) = length (filter is_create cs)"
    using arg_cong [OF ids, of length] by (simp del: upt_Suc)
  have dist: "distinct (map id_field (tasks (run_ops s cs)))"
    unfolding ids by (rule task_names_distinct)
  have app: "map id_field (tasks (snd (create_task (run_ops s cs) descr reqs compl))) =
           map id_field (tasks (run_ops s cs)) @
             [''task_'' @ str_nat (Suc (length (filter is_create cs)))]"
    by (simp add: create_task_tasks get_new_task_id_def len)
  have ok: "fst (create_task (run_ops s cs) descr reqs compl) = Returned True \<longleftrightarrow>
            silence_actions s \<or>
            console_rejects s [Lit ''Created task: [italic]'', Val descr, Lit ''[/italic]''] = None"
    by (simp add: create_task_returns run_ops_frame)
  from ids dist app ok show ?thesis
    by (simp only: simp_thms)
qed

text \<open>C4 on two creations with a completion between them.\<close>

theorem C4_task_ids_dense_witness:
  "map id_field (tasks (run_ops (init_agency True example_console)
      [CreateTask (PStr ''a'') (PList [PStr ''r'']) (PBool False),
       CompleteTask (PStr ''task_1''),
       CreateTask (PStr ''b'') (PList [PStr ''q'']) (PBool False)])) = [''task_1'', ''task_2'']"
proof -
  have e: "tasks (init_agency True example_console) = []" by (simp add: init_agency_def)
  have n: "[1..<Suc (Suc (Suc 0))] = [1, 2]" by (simp add: upt_rec)
  show ?thesis
    using C4_task_ids_dense [OF e, of "[CreateTask (PStr ''a'') (PList [PStr ''r'']) (PBool False),
       CompleteTask (PStr ''task_1''),
       CreateTask (PStr ''b'') (PList [PStr ''q'']) (PBool False)]" PNone PNone PNone,
       THEN conjunct1]
    by (simp add: n str_nat_1 str_nat_2)
qed

text \<open>
  When the notice of a completion is refused and the handler's line is refused too, the
  exception of the handler's print leaves \<^verbatim>\<open>complete_task\<close>.
\<close>

lemma complete_task_raises:
  assumes "first_match task_id (tasks s) = Some i" and "\<not> silence_actions s"
    and "console_rejects s [Lit ''Completed task: [italic]'', Val (description (tasks s ! i)),
           Lit ''[/italic]''] = Some e"
    and "console_rejects s [Lit ''Error completing task: '', Val (PStr e)] = Some e'"
  shows "fst (complete_task s task_id) = Raised e'"
  using assms
  by (simp add: complete_task_def Let_def publish_def console_print_def except_handler_def)

text \<open>
  C5. \<^verbatim>\<open>complete_task(id)\<close> returns true exactly when a task of the list has the
  identifier; it then has set the flag and published one \<^verbatim>\<open>task_completed\<close> event. The
  lemmas above give the code's part of this: without a match nothing is published and the
  result is not \<^verbatim>\<open>True\<close>; on a match the flag is set and the event published, and the
  result is \<^verbatim>\<open>True\<close> when the notice is silenced or printed. It is not on every known
  identifier: on the tracker that is not silenced and holds \<^verbatim>\<open>task_1\<close> with the
  description \<^verbatim>\<open>fix [/usr/bin] path\<close>, the call sets the flag, publishes the event and
  then raises, from the handler, instead of returning.
\<close>

theorem C5_complete_task_raises_on_known_id:
  "map id_field (tasks (example_tracker False ''fix [/usr/bin] path'')) = [''task_1'']
   \<and> fst (complete_task (example_tracker False ''fix [/usr/bin] path'') (PStr ''task_1'')) =
       Raised ''closing tag '[/usr/bin]' at position 36 doesn't match any open tag''
   \<and> map completed (tasks (snd (complete_task (example_tracker False ''fix [/usr/bin] path'')
        (PStr ''task_1'')))) = [PBool True]
   \<and> map fst (pubsub (snd (complete_task (example_tracker False ''fix [/usr/bin] path'')
        (PStr ''task_1'')))) = [''task_completed'']"
proof -
  let ?s = "example_tracker False ''fix [/usr/bin] path''"
  have hit: "first_match (PStr ''task_1'') (tasks ?s) = Some 0"
    by (rule example_tracker_first_match)
  have "fst (complete_task ?s (PStr ''task_1'')) =
      Raised ''closing tag '[/usr/bin]' at position 36 doesn't match any open tag''"
    by (rule complete_task_raises [OF hit])
      (simp_all add: example_tracker_sel example_console_def)
  then show ?thesis
    by (simp add: complete_task_hit [OF hit] example_tracker_sel example_tracker_pubsub)
qed

text \<open>
  Two completions of a known identifier: the second leaves the list as the first left it,
  each publishes the event with the completed task, and the second returns \<^verbatim>\<open>True\<close>
  exactly when the first did.
\<close>

lemma complete_task_twice_effect:
  assumes "\<exists>t \<in> set (tasks s). PStr (id_field t) = task_id"
  shows "\<exists>t. tasks (snd (complete_task (snd (complete_task s task_id)) task_id)) =
               tasks (snd (complete_task s task_id))
           \<and> find_task (snd (complete_task s task_id)) task_id = Some t
           \<and> completed t = PBool True
           \<and> pubsub (snd (complete_task s task_id)) = pubsub s @ [(''task_completed'', t)]
           \<and> pubsub (snd (complete_task (snd (complete_task s task_id)) task_id)) =
               pubsub s @ [(''task_completed'', t), (''task_completed'', t)]
           \<and> (fst (complete_task (snd (complete_task s task_id)) task_id) = Returned True \<longleftrightarrow>
                fst (complete_task s task_id) = Returned True)"
proof -
  from assms obtain i where i: "first_match task_id (tasks s) = Some i"
    using known_first_match by blast
  define t where "t = (tasks s ! i)\<lparr>completed := PBool True\<rparr>"
  define s1 where "s1 = snd (complete_task s task_id)"
  have len: "i < length (tasks s)"
    using first_match_Some [OF i] by simp
  have t1: "tasks s1 = (tasks s)[i := t]"
    by (simp add: s1_def t_def complete_task_hit [OF i])
  have i1: "first_match task_id (tasks s1) = Some i"
    unfolding t1 by (rule first_match_update [OF i]) (simp add: t_def)
  have at: "tasks s1 ! i = t"
    using len by (simp add: t1)
  have frame: "silence_actions s1 = silence_actions s" "console_rejects s1 = console_rejects s"
    using call_op_frame [of s "CompleteTask task_id"] by (simp_all add: s1_def)
  have t2: "tasks (snd (complete_task s1 task_id)) = tasks s1"
    using len by (simp add: complete_task_hit [OF i1] at t1 t_def)
  have p1: "pubsub s1 = pubsub s @ [(''task_completed'', t)]"
    by (simp add: s1_def t_def complete_task_hit [OF i])
  have p2: "pubsub (snd (complete_task s1 task_id)) =
      pubsub s @ [(''task_completed'', t), (''task_completed'', t)]"
    by (simp add: complete_task_hit [OF i1] at p1 t_def)
  have f: "find_task s1 task_id = Some t"
    using i1 at by (simp add: find_task_def)
  have r: "fst (complete_task s1 task_id) = Returned True \<longleftrightarrow>
      fst (complete_task s task_id) = Returned True"
    by (simp add: complete_task_hit(3) [OF i1] complete_task_hit(3) [OF i] at frame t_def)
  from t2 p1 p2 f r show ?thesis
    unfolding s1_def [symmetric] by (intro exI [of _ t]) (simp add: t_def)
qed

text \<open>
  C6. On a known identifier, two calls of \<^verbatim>\<open>complete_task\<close> leave the list as one call
  leaves it, with the flag of the task \<^verbatim>\<open>True\<close>, each call publishes its own
  \<^verbatim>\<open>task_completed\<close> event, and the second call still returns true. The lemma above shows
  the list and the bus to be so on every path, and the second call to return \<^verbatim>\<open>True\<close>
  exactly when the first did. That is not on every known identifier: on the tracker that is not silenced and holds
  \<^verbatim>\<open>task_1\<close> with the description \<^verbatim>\<open>fix [/usr/bin] path\<close>, the second call, like the
  first, raises from the handler after it has published.
\<close>

theorem C6_second_complete_task_raises:
  "fst (complete_task (snd (complete_task (example_tracker False ''fix [/usr/bin] path'')
          (PStr ''task_1''))) (PStr ''task_1'')) =
     Raised ''closing tag '[/usr/bin]' at position 36 doesn't match any open tag''
   \<and> tasks (snd (complete_task (snd (complete_task (example_tracker False ''fix [/usr/bin] path'')
          (PStr ''task_1''))) (PStr ''task_1''))) =
       tasks (snd (complete_task (example_tracker False ''fix [/usr/bin] path'') (PStr ''task_1'')))
   \<and> map completed (tasks (snd (complete_task (snd (complete_task
          (example_tracker False ''fix [/usr/bin] path'') (PStr ''task_1''))) (PStr ''task_1'')))) =
       [PBool True]
   \<and> map fst (pubsub (snd (complete_task (snd (complete_task
          (example_tracker False ''fix [/usr/bin] path'') (PStr ''task_1''))) (PStr ''task_1'')))) =
       [''task_completed'', ''task_completed'']"
proof -
  let ?s = "example_tracker False ''fix [/usr/bin] path''"
  let ?s1 = "snd (complete_task ?s (PStr ''task_1''))"
  have hit: "first_match (PStr ''task_1'') (tasks ?s) = Some 0"
    by (rule example_tracker_first_match)
  have t1: "tasks ?s1 =
      [\<lparr>id_field = ''task_1'', description = PStr ''fix [/usr/bin] path'',
        requirements = PList [PStr ''r''], completed = PBool True, notes_field = PStr ''''\<rparr>]"
    by (simp add: complete_task_hit [OF hit] example_tracker_sel)
  have p1: "map fst (pubsub ?s1) = [''task_completed'']"
    by (simp add: complete_task_hit [OF hit] example_tracker_pubsub)
  have frame: "silence_actions ?s1 = False" "console_rejects ?s1 = example_console"
    using call_op_frame [of ?s "CompleteTask (PStr ''task_1'')"]
    by (simp_all add: example_tracker_sel)
  have hit1: "first_match (PStr ''task_1'') (tasks ?s1) = Some 0"
    by (simp add: t1)
  have "fst (complete_task ?s1 (PStr ''task_1'')) =
      Raised ''closing tag '[/usr/bin]' at position 36 doesn't match any open tag''"
    by (rule complete_task_raises [OF hit1]) (simp_all add: frame t1 example_console_def)
  then show ?thesis
    by (simp add: complete_task_hit [OF hit1] t1 p1)
qed

text \<open>
  C7. A successful \<^verbatim>\<open>modify_task_requirements(id, R)\<close> is one on a known identifier, and
  the task read back by that identifier has exactly \<open>R\<close> as its requirements, whatever it
  had before; a successful \<^verbatim>\<open>modify_task_notes(id, N)\<close> likewise leaves exactly \<open>N\<close> as
  the notes. On a known identifier the field is replaced also when the call does not
  return \<^verbatim>\<open>True\<close>.
\<close>

theorem C7_modify_replaces_field:
  "(fst (modify_task_requirements s task_id R) = Returned True \<longrightarrow>
      (\<exists>t \<in> set (tasks s). PStr (id_field t) = task_id)
      \<and> map_option requirements
          (find_task (snd (modify_task_requirements s task_id R)) task_id) = Some R)
   \<and> (fst (modify_task_notes s task_id N) = Returned True \<longrightarrow>
      (\<exists>t \<in> set (tasks s). PStr (id_field t) = task_id)
      \<and> map_option notes_field
          (find_task (snd (modify_task_notes s task_id N)) task_id) = Some N)
   \<and> ((\<exists>t \<in> set (tasks s). PStr (id_field t) = task_id) \<longrightarrow>
      map_option requirements
        (find_task (snd (modify_task_requirements s task_id R)) task_id) = Some R
      \<and> map_option notes_field
          (find_task (snd (modify_task_notes s task_id N)) task_id) = Some N)"
proof (cases "first_match task_id (tasks s)")
  case None
  then have "\<not> (\<exists>t \<in> set (tasks s). PStr (id_field t) = task_id)"
    by (simp add: first_match_None)
  with None show ?thesis
    by (simp add: modify_task_requirements_miss(3) modify_task_notes_miss(3))
next
  case (Some i)
  then have known: "\<exists>t \<in> set (tasks s). PStr (id_field t) = task_id"
    using known_first_match by blast
  have "find_task (snd (modify_task_requirements s task_id R)) task_id =
          Some ((tasks s ! i)\<lparr>requirements := R\<rparr>)"
    by (rule find_task_after_update [OF Some]) (simp_all add: modify_task_requirements_hit [OF Some])
  moreover have "find_task (snd (modify_task_notes s task_id N)) task_id =
          Some ((tasks s ! i)\<lparr>notes_field := N\<rparr>)"
    by (rule find_task_after_update [OF Some]) (simp_all add: modify_task_notes_hit [OF Some])
  ultimately show ?thesis
    using known by simp
qed

text \<open>
  C7 on the silenced tracker that holds \<^verbatim>\<open>task_1\<close> with one requirement and empty
  notes: both calls return \<^verbatim>\<open>True\<close> and the fields read back are the new ones.
\<close>

theorem C7_modify_replaces_field_witness:
  "fst (modify_task_requirements (example_tracker True ''d'') (PStr ''task_1'')
          (PList [PStr ''x'', PStr ''y''])) = Returned True
   \<and> map_option requirements (find_task (snd (modify_task_requirements
          (example_tracker True ''d'') (PStr ''task_1'') (PList [PStr ''x'', PStr ''y''])))
          (PStr ''task_1'')) = Some (PList [PStr ''x'', PStr ''y''])
   \<and> fst (modify_task_notes (example_tracker True ''d'') (PStr ''task_1'') (PStr ''seen'')) =
       Returned True
   \<and> map_option notes_field (find_task (snd (modify_task_notes
          (example_tracker True ''d'') (PStr ''task_1'') (PStr ''seen''))) (PStr ''task_1'')) =
       Some (PStr ''seen'')"
proof -
  have ok: "fst (modify_task_requirements (example_tracker True ''d'') (PStr ''task_1'')
      (PList [PStr ''x'', PStr ''y''])) = Returned True"
    "fst (modify_task_notes (example_tracker True ''d'') (PStr ''task_1'') (PStr ''seen'')) =
      Returned True"
    by (simp_all add: modify_task_requirements_hit [OF example_tracker_first_match(1)]
        modify_task_notes_hit [OF example_tracker_first_match(1)] example_tracker_sel)
  show ?thesis
    using ok C7_modify_replaces_field [of "example_tracker True ''d''" "PStr ''task_1''"
        "PList [PStr ''x'', PStr ''y'']" "PStr ''seen''"]
    by blast
qed

text \<open>
  C8. \<^verbatim>\<open>get_incomplete_tasks\<close> returns the tasks of the list whose flag is false, in the
  order of the list, which is the order of their creation: the result is a subsequence of
  the list, a task whose flag is true does not occur in it, and a task whose flag is false
  occurs in it as often as in the list.
\<close>

theorem C8_get_incomplete_tasks_exact:
  "subseq (get_incomplete_tasks s) (tasks s)
   \<and> count_list (get_incomplete_tasks s) t =
       (if truthy (completed t) then 0 else count_list (tasks s) t)"
  by (simp add: get_incomplete_tasks_def count_list_filter_if)

text \<open>
  C9. Once \<^verbatim>\<open>startup\<close> has set the prompt to \<open>P\<close>, \<^verbatim>\<open>append_to_system_prompt(m)\<close> returns
  and stores \<open>P\<close>, a newline and \<open>m\<close>: the stored prompt begins with \<open>P\<close> and ends with
  \<open>m\<close>. The two other operations, \<^verbatim>\<open>get_response\<close> and \<^verbatim>\<open>get_text_response\<close>, return the
  client as they found it.
\<close>

theorem C9_append_to_system_prompt_appends:
  assumes "system_prompt l = Some P"
  shows "(\<exists>P'. append_to_system_prompt l m = Inr (P', l\<lparr>system_prompt := Some P'\<rparr>)
            \<and> P' = P @ ''\<newline>'' @ m \<and> prefix P P' \<and> suffix m P')
       \<and> get_response l msgs tools = Inr (get_model_response l msgs tools P, l)
       \<and> snd (get_text_response l msg p) = l
       \<and> system_prompt (startup l0 P) = Some P"
  using assms
  by (auto simp: append_to_system_prompt_def Let_def get_text_response_def get_response_def
      startup_def suffix_def split: option.splits)

text \<open>C9 on a client started with a prompt.\<close>

theorem C9_append_to_system_prompt_appends_witness:
  "system_prompt (startup (init_llm ''n'' ''m'' (\<lambda>ms ts p. \<lparr>msg_id = None, content = Some p,
      role = ''assistant'', tool_calls = None, tool_call_id = None\<rparr>)) ''You are Simmy.'') =
     Some ''You are Simmy.''
   \<and> map_sum id fst (append_to_system_prompt
       (startup (init_llm ''n'' ''m'' (\<lambda>ms ts p. \<lparr>msg_id = None, content = Some p,
          role = ''assistant'', tool_calls = None, tool_call_id = None\<rparr>)) ''You are Simmy.'')
       ''Be brief.'') = Inr (''You are Simmy.'' @ ''\<newline>'' @ ''Be brief.'')"
proof -
  have started: "system_prompt (startup (init_llm ''n'' ''m'' (\<lambda>ms ts p. \<lparr>msg_id = None,
      content = Some p, role = ''assistant'', tool_calls = None, tool_call_id = None\<rparr>))
      ''You are Simmy.'') = Some ''You are Simmy.''"
    by (simp add: startup_def)
  show ?thesis
    using started C9_append_to_system_prompt_appends [OF started, of "''Be brief.''"]
    by auto
qed

text \<open>
  C10. No call of the four operations removes a task or moves one: the list does not get
  shorter, every position keeps its identifier, and a task whose flag is true before the
  call has a true flag after it, whether the call returns or raises.
\<close>

theorem C10_completion_is_monotone:
  "length (tasks s) \<le> length (tasks (snd (call_op s c)))
   \<and> (\<forall>j < length (tasks s).
        id_field (tasks (snd (call_op s c)) ! j) = id_field (tasks s ! j)
        \<and> (truthy (completed (tasks s ! j)) \<longrightarrow>
             truthy (completed (tasks (snd (call_op s c)) ! j))))"
proof (cases c)
  case (CreateTask d r k)
  then show ?thesis by (simp add: create_task_tasks nth_append)
next
  case (CompleteTask task_id)
  show ?thesis
  proof (cases "first_match task_id (tasks s)")
    case None
    with CompleteTask show ?thesis by (simp add: complete_task_miss(1))
  next
    case (Some i)
    have "i < length (tasks s)" using first_match_Some [OF Some] by simp
    then show ?thesis
      using CompleteTask by (simp add: complete_task_hit(1) [OF Some] update_keeps)
  qed
next
  case (ModifyTaskNotes task_id v)
  show ?thesis
  proof (cases "first_match task_id (tasks s)")
    case None
    with ModifyTaskNotes show ?thesis by (simp add: modify_task_notes_miss(1))
  next
    case (Some i)
    have "i < length (tasks s)" using first_match_Some [OF Some] by simp
    then show ?thesis
      using ModifyTaskNotes by (simp add: modify_task_notes_hit(1) [OF Some] update_keeps)
  qed
next
  case (ModifyTaskRequirements task_id v)
  show ?thesis
  proof (cases "first_match task_id (tasks s)")
    case None
    with ModifyTaskRequirements show ?thesis
      by (simp add: modify_task_requirements_miss(1))
  next
    case (Some i)
    have "i < length (tasks s)" using first_match_Some [OF Some] by simp
    then show ?thesis
      using ModifyTaskRequirements
      by (simp add: modify_task_requirements_hit(1) [OF Some] update_keeps)
  qed
qed

text \<open>C10 on a task created complete, whose notes are then modified.\<close>

theorem C10_completion_is_monotone_witness:
  "truthy (completed (tasks (snd (call_op
      (snd (create_task (init_agency True example_console) (PStr ''d'') (PList [PStr ''r''])
         (PBool True)))
      (ModifyTaskNotes (PStr ''task_1'') (PStr ''n'')))) ! 0))"
proof -
  have ts: "tasks (snd (create_task (init_agency True example_console) (PStr ''d'')
      (PList [PStr ''r'']) (PBool True))) =
      [\<lparr>id_field = ''task_1'', description = PStr ''d'', requirements = PList [PStr ''r''],
         completed = PBool True, notes_field = PStr ''''\<rparr>]"
    by (simp add: create_task_tasks task_1_name init_agency_sel)
  have "0 < length (tasks (snd (create_task (init_agency True example_console) (PStr ''d'')
      (PList [PStr ''r'']) (PBool True))))"
    and "truthy (completed (tasks (snd (create_task (init_agency True example_console)
      (PStr ''d'') (PList [PStr ''r'']) (PBool True))) ! 0))"
    by (simp_all add: ts)
  then show ?thesis
    using C10_completion_is_monotone
      [of "snd (create_task (init_agency True example_console) (PStr ''d'')
             (PList [PStr ''r'']) (PBool True))"
          "ModifyTaskNotes (PStr ''task_1'') (PStr ''n'')"]
    by blast
qed

end
